theory Spec2Isabelle
  imports Main "HOL-Library.Word"
begin

section \<open>JavaScript strings\<close>

text \<open>
  A JavaScript string is a sequence of UTF-16 code units; every string operation of the
  source (\<^verbatim>\<open>replace\<close>, \<^verbatim>\<open>split\<close>, \<^verbatim>\<open>trim\<close>, \<^verbatim>\<open>===\<close>) works on code units.
  Bytes read from the child process are 8-bit words.
\<close>

type_synonym jschar = "16 word"
type_synonym jsstring = "jschar list"
type_synonym byte = "8 word"

text \<open>Source literals are ASCII; \<open>lit\<close> turns one into its code units.\<close>

definition lit :: "string \<Rightarrow> jsstring" where
  "lit s = map of_char s"

abbreviation BSLASH :: jschar where "BSLASH \<equiv> 0x5C"
abbreviation DQUOTE :: jschar where "DQUOTE \<equiv> 0x22"
abbreviation SQUOTE :: jschar where "SQUOTE \<equiv> 0x27"
abbreviation NEWLINE :: jschar where "NEWLINE \<equiv> 0x0A"
abbreviation CRETURN :: jschar where "CRETURN \<equiv> 0x0D"
abbreviation TABCHAR :: jschar where "TABCHAR \<equiv> 0x09"
abbreviation COMMA :: jschar where "COMMA \<equiv> 0x2C"
abbreviation LETTER_n :: jschar where "LETTER_n \<equiv> 0x6E"
abbreviation LETTER_r :: jschar where "LETTER_r \<equiv> 0x72"
abbreviation LETTER_t :: jschar where "LETTER_t \<equiv> 0x74"

text \<open>
  \<^verbatim>\<open>s.replace(/c/g, repl)\<close> for a pattern that is one literal character and a
  replacement without \<^verbatim>\<open>$\<close>: every occurrence of \<open>c\<close>, left to right, becomes \<open>repl\<close>.
\<close>

definition replace_global :: "jschar \<Rightarrow> jsstring \<Rightarrow> jsstring \<Rightarrow> jsstring" where
  "replace_global c repl s = concat (map (\<lambda>x. if x = c then repl else [x]) s)"

text \<open>
  \<^verbatim>\<open>String.prototype.trim\<close> removes leading and trailing WhiteSpace and LineTerminator
  code units (ECMAScript: TAB, VT, FF, SP, NBSP, ZWNBSP, the Unicode space separators,
  LF, CR, LS, PS).
\<close>

definition is_js_whitespace :: "jschar \<Rightarrow> bool" where
  "is_js_whitespace c \<longleftrightarrow>
     c = 0x09 \<or> c = 0x0A \<or> c = 0x0B \<or> c = 0x0C \<or> c = 0x0D \<or> c = 0x20 \<or> c = 0xA0 \<or>
     c = 0x1680 \<or> (0x2000 \<le> c \<and> c \<le> 0x200A) \<or> c = 0x2028 \<or> c = 0x2029 \<or>
     c = 0x202F \<or> c = 0x205F \<or> c = 0x3000 \<or> c = 0xFEFF"

definition trim :: "jsstring \<Rightarrow> jsstring" where
  "trim s = rev (dropWhile is_js_whitespace (rev (dropWhile is_js_whitespace s)))"

text \<open>
  \<^verbatim>\<open>s.split(c)\<close> for a one-character separator and no limit: the pieces between the
  occurrences of \<open>c\<close>; the empty string splits into one empty piece.
\<close>

fun split_on :: "jschar \<Rightarrow> jsstring \<Rightarrow> jsstring list" where
  "split_on c [] = [[]]"
| "split_on c (x # xs) =
     (let r = split_on c xs in if x = c then [] # r else (x # hd r) # tl r)"

section \<open>The sanitizer (src/utils/applescript.ts)\<close>

text \<open>
  The function returns the value of a chain of six \<^verbatim>\<open>replace\<close> calls, each applied to
  the value of the call before it. \<open>sanitize_stages\<close> lists the six values in call order;
  the last one is returned.
\<close>

definition sanitize_stages :: "jsstring \<Rightarrow> jsstring list" where
  "sanitize_stages input =
     (let s1 = replace_global BSLASH [BSLASH, BSLASH] input;
          s2 = replace_global DQUOTE [BSLASH, DQUOTE] s1;
          s3 = replace_global SQUOTE [SQUOTE, DQUOTE, SQUOTE, DQUOTE, SQUOTE] s2;
          s4 = replace_global NEWLINE [BSLASH, LETTER_n] s3;
          s5 = replace_global CRETURN [BSLASH, LETTER_r] s4;
          s6 = replace_global TABCHAR [BSLASH, LETTER_t] s5
      in [s1, s2, s3, s4, s5, s6])"

definition sanitizeForAppleScript :: "jsstring \<Rightarrow> jsstring" where
  "sanitizeForAppleScript input = (if input = [] then [] else last (sanitize_stages input))"

subsection \<open>What the claims say about the sanitized text\<close>

text \<open>
  The image of one input character under the whole chain of replacements.
\<close>

definition escape_char :: "jschar \<Rightarrow> jsstring" where
  "escape_char x =
     (if x = BSLASH then [BSLASH, BSLASH]
      else if x = DQUOTE then [BSLASH, DQUOTE]
      else if x = SQUOTE then [SQUOTE, DQUOTE, SQUOTE, DQUOTE, SQUOTE]
      else if x = NEWLINE then [BSLASH, LETTER_n]
      else if x = CRETURN then [BSLASH, LETTER_r]
      else if x = TABCHAR then [BSLASH, LETTER_t]
      else [x])"

text \<open>
  The image of one input character once the first \<open>k\<close> transformations of the stated order
  have been applied: backslash, double quote, single quote, newline, carriage return, tab.
\<close>

definition escape_after :: "nat \<Rightarrow> jschar \<Rightarrow> jsstring" where
  "escape_after k x =
     (if 1 \<le> k \<and> x = BSLASH then [BSLASH, BSLASH]
      else if 2 \<le> k \<and> x = DQUOTE then [BSLASH, DQUOTE]
      else if 3 \<le> k \<and> x = SQUOTE then [SQUOTE, DQUOTE, SQUOTE, DQUOTE, SQUOTE]
      else if 4 \<le> k \<and> x = NEWLINE then [BSLASH, LETTER_n]
      else if 5 \<le> k \<and> x = CRETURN then [BSLASH, LETTER_r]
      else if 6 \<le> k \<and> x = TABCHAR then [BSLASH, LETTER_t]
      else [x])"

text \<open>
  The body of a double-quoted literal, read left to right: a backslash escapes the
  character after it. The body is safe when no double quote stands unescaped and the body
  does not end in a backslash that would escape the closing delimiter.
\<close>

fun literal_safe :: "jsstring \<Rightarrow> bool" where
  "literal_safe [] = True"
| "literal_safe [c] = (c \<noteq> BSLASH \<and> c \<noteq> DQUOTE)"
| "literal_safe (c # d # cs) =
     (if c = BSLASH then literal_safe cs
      else if c = DQUOTE then False
      else literal_safe (d # cs))"

text \<open>The minimal template: the sanitized text between two double quotes.\<close>

definition embed_literal :: "jsstring \<Rightarrow> jsstring" where
  "embed_literal body = DQUOTE # body @ [DQUOTE]"

text \<open>
  Reversing the escape forms, left to right: backslash pairs are decoded, the five
  characters of the single-quote idiom give back one single quote.
\<close>

fun unescape :: "jsstring \<Rightarrow> jsstring" where
  "unescape [] = []"
| "unescape [c] = [c]"
| "unescape (c # d # cs) =
     (if c = BSLASH then
        (if d = LETTER_n then NEWLINE
         else if d = LETTER_r then CRETURN
         else if d = LETTER_t then TABCHAR
         else d) # unescape cs
      else if c = SQUOTE \<and> take 4 (d # cs) = [DQUOTE, SQUOTE, DQUOTE, SQUOTE]
        then SQUOTE # unescape (drop 3 cs)
      else c # unescape (d # cs))"

definition decode_literal :: "jsstring \<Rightarrow> jsstring option" where
  "decode_literal t =
     (case t of
        [] \<Rightarrow> None
      | q # rest \<Rightarrow>
          if q = DQUOTE \<and> rest \<noteq> [] \<and> last rest = DQUOTE
          then Some (unescape (butlast rest)) else None)"

section \<open>The command executor (src/utils/applescript.ts)\<close>

text \<open>
  \<^verbatim>\<open>AppleScriptResult\<close> of types.ts and the \<^verbatim>\<open>{ success, error? }\<close> objects that
  the operations return share their first two fields; an absent optional field is \<open>None\<close>.
\<close>

record StatusResult =
  success :: bool
  error :: "jsstring option"

record AppleScriptResult = StatusResult +
  "output" :: jsstring

text \<open>
  What the spawned \<^verbatim>\<open>osascript\<close> child does is a sequence of events delivered to the
  four listeners that \<^verbatim>\<open>runAppleScript\<close> registers. The exit code is \<^verbatim>\<open>null\<close>
  (\<open>None\<close>) when a signal ended the process.
\<close>

datatype child_event =
    StdoutData "byte list"
  | StderrData "byte list"
  | ErrorEvent jsstring
  | ExitEvent "int option"

record listener_state =
  chunks :: "byte list list"
  errorChunks :: "byte list list"
  resolved :: "AppleScriptResult option"

text \<open>A promise settles once: a later call of \<^verbatim>\<open>resolve\<close> changes nothing.\<close>

definition resolve :: "AppleScriptResult \<Rightarrow> listener_state \<Rightarrow> listener_state" where
  "resolve v st = (case resolved st of None \<Rightarrow> st\<lparr>resolved := Some v\<rparr> | Some _ \<Rightarrow> st)"

text \<open>Decimal digits of a number, as the template literal prints an integer exit code.\<close>

fun digit_string :: "nat \<Rightarrow> jsstring" where
  "digit_string n =
     (if n < 10 then [of_nat (48 + n)]
      else digit_string (n div 10) @ [of_nat (48 + n mod 10)])"

declare digit_string.simps [simp del]

definition code_to_string :: "int option \<Rightarrow> jsstring" where
  "code_to_string code =
     (case code of
        None \<Rightarrow> lit ''null''
      | Some n \<Rightarrow> if n < 0 then 0x2D # digit_string (nat (- n)) else digit_string (nat n))"

text \<open>
  The listeners. \<open>utf8\<close> stands for \<^verbatim>\<open>Buffer.toString('utf8')\<close>, the decoder of the
  runtime.
\<close>

fun on_event :: "(byte list \<Rightarrow> jsstring) \<Rightarrow> listener_state \<Rightarrow> child_event \<Rightarrow> listener_state" where
  "on_event utf8 st (StdoutData chunk) = st\<lparr>chunks := chunks st @ [chunk]\<rparr>"
| "on_event utf8 st (StderrData chunk) = st\<lparr>errorChunks := errorChunks st @ [chunk]\<rparr>"
| "on_event utf8 st (ErrorEvent message) =
     resolve \<lparr>success = False,
              error = Some (lit ''Failed to execute AppleScript: '' @ message),
              output = []\<rparr> st"
| "on_event utf8 st (ExitEvent code) =
     (let out = trim (utf8 (concat (chunks st)));
          errorOutput = trim (utf8 (concat (errorChunks st)))
      in if code = Some 0 then
           resolve \<lparr>success = True, error = None, output = out\<rparr> st
         else
           resolve \<lparr>success = False,
                    error = Some (if errorOutput \<noteq> [] then errorOutput
                                  else lit ''AppleScript exited with code '' @ code_to_string code),
                    output = []\<rparr> st)"

text \<open>
  \<open>os script\<close> is what the child spawned for \<open>script\<close> does. The result is the value
  the promise settles to, \<open>None\<close> when no event ever settles it.
\<close>

definition runAppleScript ::
  "(byte list \<Rightarrow> jsstring) \<Rightarrow> (jsstring \<Rightarrow> child_event list) \<Rightarrow> jsstring \<Rightarrow> AppleScriptResult option" where
  "runAppleScript utf8 os script =
     resolved (foldl (on_event utf8) \<lparr>chunks = [], errorChunks = [], resolved = None\<rparr> (os script))"



fun is_data :: "child_event \<Rightarrow> bool" where
  "is_data (StdoutData c) = True"
| "is_data (StderrData c) = True"
| "is_data (ErrorEvent m) = False"
| "is_data (ExitEvent code) = False"

section \<open>The note operations (src/services/appleNotesManager.ts)\<close>

record Note =
  note_id :: jsstring
  note_title :: jsstring
  note_content :: jsstring
  note_tags :: "jsstring list"
  note_created :: int
  note_modified :: int

record Folder =
  folder_id :: jsstring
  folder_name :: jsstring
  folder_account :: jsstring

record EditResult = StatusResult +
  "note" :: "Note option"

datatype js_error = Error jsstring

text \<open>
  An operation awaits \<^verbatim>\<open>runAppleScript(script)\<close>; \<open>run script\<close> is the outcome it gets.
  The \<open>k\<close>-th call of \<^verbatim>\<open>randomUUID()\<close> in an operation returns \<open>uuid k\<close>, the \<open>k\<close>-th
  \<^verbatim>\<open>new Date()\<close> is \<open>clock k\<close>. The fields of \<^verbatim>\<open>Note\<close> and \<^verbatim>\<open>Folder\<close> carry a prefix, since
  the operations use the bare names for their parameters.
\<close>

type_synonym executor = "jsstring \<Rightarrow> AppleScriptResult"

definition formatContent :: "jsstring \<Rightarrow> jsstring" where
  "formatContent content = (if content = [] then [] else replace_global NEWLINE (lit ''<br>'') content)"

text \<open>A template literal, line by line: the lines joined by newlines.\<close>

fun template :: "jsstring list \<Rightarrow> jsstring" where
  "template [] = []"
| "template [l] = l"
| "template (l # ls) = l @ NEWLINE # template ls"

definition getAccounts_script :: "jsstring" where
  \<open>getAccounts_script =
     template
      [lit '''',
       lit ''      tell application "Notes"'',
       lit ''        set accountList to {}'',
       lit ''        repeat with anAccount in accounts'',
       lit ''          set end of accountList to name of anAccount'',
       lit ''        end repeat'',
       lit ''        return accountList'',
       lit ''      end tell'',
       lit ''    '']\<close>

definition createNote_folderScript :: "jsstring \<Rightarrow> jsstring \<Rightarrow> jsstring \<Rightarrow> jsstring \<Rightarrow> jsstring" where
  \<open>createNote_folderScript sanitizedAccount sanitizedFolder sanitizedTitle sanitizedContent =
     template
      [lit '''',
       lit ''        tell application "Notes"'',
       lit ''          tell account "'' @ sanitizedAccount @ lit ''"'',
       lit ''            set targetFolder to missing value'',
       lit ''            repeat with aFolder in folders'',
       lit ''              if name of aFolder is "'' @ sanitizedFolder @ lit ''" then'',
       lit ''                set targetFolder to aFolder'',
       lit ''                exit repeat'',
       lit ''              end if'',
       lit ''            end repeat'',
       lit ''            '',
       lit ''            if targetFolder is missing value then'',
       lit ''              return "folder not found"'',
       lit ''            end if'',
       lit ''            '',
       lit ''            tell targetFolder'',
       lit ''              set newNote to make new note with properties {name:"'' @ sanitizedTitle @ lit ''", body:"'' @ sanitizedContent @ lit ''"}'',
       lit ''            end tell'',
       lit ''            return "created"'',
       lit ''          end tell'',
       lit ''        end tell'',
       lit ''      '']\<close>

definition createNote_simpleScript :: "jsstring \<Rightarrow> jsstring \<Rightarrow> jsstring" where
  \<open>createNote_simpleScript sanitizedTitle sanitizedContent =
     template
      [lit '''',
       lit ''        tell application "Notes"'',
       lit ''          set newNote to make new note with properties {name:"'' @ sanitizedTitle @ lit ''", body:"'' @ sanitizedContent @ lit ''"}'',
       lit ''          return "created"'',
       lit ''        end tell'',
       lit ''      '']\<close>

definition createNote_accountScript :: "jsstring \<Rightarrow> jsstring \<Rightarrow> jsstring \<Rightarrow> jsstring" where
  \<open>createNote_accountScript sanitizedAccount sanitizedTitle sanitizedContent =
     template
      [lit '''',
       lit ''        tell application "Notes"'',
       lit ''          tell account "'' @ sanitizedAccount @ lit ''"'',
       lit ''            set newNote to make new note with properties {name:"'' @ sanitizedTitle @ lit ''", body:"'' @ sanitizedContent @ lit ''"}'',
       lit ''            return "created"'',
       lit ''          end tell'',
       lit ''        end tell'',
       lit ''      '']\<close>

definition searchNotes_script :: "jsstring \<Rightarrow> jsstring \<Rightarrow> jsstring" where
  \<open>searchNotes_script sanitizedAccount sanitizedQuery =
     template
      [lit '''',
       lit ''      tell application "Notes"'',
       lit ''        tell account "'' @ sanitizedAccount @ lit ''"'',
       lit ''          set matchingNotes to notes whose body contains "'' @ sanitizedQuery @ lit ''"'',
       lit ''          set resultList to {}'',
       lit ''          '',
       lit ''          repeat with currentNote in matchingNotes'',
       lit ''            set noteName to name of currentNote'',
       lit ''            set end of resultList to noteName'',
       lit ''          end repeat'',
       lit ''          '',
       lit ''          return resultList'',
       lit ''        end tell'',
       lit ''      end tell'',
       lit ''    '']\<close>

definition getNoteContent_script :: "jsstring \<Rightarrow> jsstring \<Rightarrow> jsstring" where
  \<open>getNoteContent_script sanitizedAccount sanitizedTitle =
     template
      [lit '''',
       lit ''      tell application "Notes"'',
       lit ''        tell account "'' @ sanitizedAccount @ lit ''"'',
       lit ''          get body of note "'' @ sanitizedTitle @ lit ''"'',
       lit ''        end tell'',
       lit ''      end tell'',
       lit ''    '']\<close>

definition editNote_script :: "jsstring \<Rightarrow> jsstring \<Rightarrow> jsstring \<Rightarrow> jsstring" where
  \<open>editNote_script sanitizedAccount sanitizedTitle sanitizedContent =
     template
      [lit '''',
       lit ''      tell application "Notes"'',
       lit ''        tell account "'' @ sanitizedAccount @ lit ''"'',
       lit ''          set foundNote to false'',
       lit ''          set noteList to every note'',
       lit ''          repeat with aNote in noteList'',
       lit ''            if name of aNote is "'' @ sanitizedTitle @ lit ''" then'',
       lit ''              set body of aNote to "'' @ sanitizedContent @ lit ''"'',
       lit ''              set foundNote to true'',
       lit ''              exit repeat'',
       lit ''            end if'',
       lit ''          end repeat'',
       lit ''          if foundNote then'',
       lit ''            return "success"'',
       lit ''          else'',
       lit ''            return "not found"'',
       lit ''          end if'',
       lit ''        end tell'',
       lit ''      end tell'',
       lit ''    '']\<close>

definition deleteNote_script :: "jsstring \<Rightarrow> jsstring \<Rightarrow> jsstring" where
  \<open>deleteNote_script sanitizedAccount sanitizedTitle =
     template
      [lit '''',
       lit ''      tell application "Notes"'',
       lit ''        tell account "'' @ sanitizedAccount @ lit ''"'',
       lit ''          set foundNote to false'',
       lit ''          set noteList to every note'',
       lit ''          repeat with aNote in noteList'',
       lit ''            if name of aNote is "'' @ sanitizedTitle @ lit ''" then'',
       lit ''              delete aNote'',
       lit ''              set foundNote to true'',
       lit ''              exit repeat'',
       lit ''            end if'',
       lit ''          end repeat'',
       lit ''          if foundNote then'',
       lit ''            return "success"'',
       lit ''          else'',
       lit ''            return "not found"'',
       lit ''          end if'',
       lit ''        end tell'',
       lit ''      end tell'',
       lit ''    '']\<close>

definition getFolders_script :: "jsstring \<Rightarrow> jsstring" where
  \<open>getFolders_script sanitizedAccount =
     template
      [lit '''',
       lit ''      tell application "Notes"'',
       lit ''        tell account "'' @ sanitizedAccount @ lit ''"'',
       lit ''          set folderList to {}'',
       lit ''          repeat with aFolder in folders'',
       lit ''            set folderName to name of aFolder'',
       lit ''            set end of folderList to folderName'',
       lit ''          end repeat'',
       lit ''          return folderList'',
       lit ''        end tell'',
       lit ''      end tell'',
       lit ''    '']\<close>

definition moveNote_script :: "jsstring \<Rightarrow> jsstring \<Rightarrow> jsstring \<Rightarrow> jsstring" where
  \<open>moveNote_script sanitizedAccount sanitizedFolder sanitizedTitle =
     template
      [lit '''',
       lit ''      tell application "Notes"'',
       lit ''        tell account "'' @ sanitizedAccount @ lit ''"'',
       lit ''          set foundNote to false'',
       lit ''          set targetFolder to missing value'',
       lit ''          '',
       lit ''          -- Find the target folder'',
       lit ''          repeat with aFolder in folders'',
       lit ''            if name of aFolder is "'' @ sanitizedFolder @ lit ''" then'',
       lit ''              set targetFolder to aFolder'',
       lit ''              exit repeat'',
       lit ''            end if'',
       lit ''          end repeat'',
       lit ''          '',
       lit ''          if targetFolder is missing value then'',
       lit ''            return "folder not found"'',
       lit ''          end if'',
       lit ''          '',
       lit ''          -- Find and move the note'',
       lit ''          set allNotes to every note'',
       lit ''          repeat with aNote in allNotes'',
       lit ''            if name of aNote is "'' @ sanitizedTitle @ lit ''" then'',
       lit ''              move aNote to targetFolder'',
       lit ''              set foundNote to true'',
       lit ''              exit repeat'',
       lit ''            end if'',
       lit ''          end repeat'',
       lit ''          '',
       lit ''          if foundNote then'',
       lit ''            return "success"'',
       lit ''          else'',
       lit ''            return "note not found"'',
       lit ''          end if'',
       lit ''        end tell'',
       lit ''      end tell'',
       lit ''    '']\<close>

definition getAccounts :: "executor \<Rightarrow> js_error + jsstring list" where
  "getAccounts run =
     (let script = getAccounts_script;
          result = run script
      in if \<not> success result then Inl (Error (lit ''Failed to get accounts''))
         else Inr (filter (\<lambda>a. a \<noteq> []) (map trim (split_on COMMA (output result)))))"

definition createNote ::
  "executor \<Rightarrow> (nat \<Rightarrow> jsstring) \<Rightarrow> (nat \<Rightarrow> int) \<Rightarrow> jsstring \<Rightarrow>
   jsstring \<Rightarrow> jsstring \<Rightarrow> jsstring list \<Rightarrow> jsstring option \<Rightarrow> js_error + Note" where
  "createNote run uuid clock accountName title content tags folder =
     (let sanitizedTitle = sanitizeForAppleScript title;
          formattedContent = formatContent content;
          sanitizedContent = sanitizeForAppleScript formattedContent;
          sanitizedAccount = sanitizeForAppleScript accountName;
          hasFolder = (case folder of None \<Rightarrow> False | Some f \<Rightarrow> f \<noteq> []);
          script =
            (case folder of
               None \<Rightarrow> createNote_simpleScript sanitizedTitle sanitizedContent
             | Some f \<Rightarrow>
                 if f \<noteq> [] then
                   createNote_folderScript sanitizedAccount (sanitizeForAppleScript f)
                     sanitizedTitle sanitizedContent
                 else createNote_simpleScript sanitizedTitle sanitizedContent);
          result = run script;
          created_note = \<lparr>note_id = uuid 0, note_title = title, note_content = content,
                          note_tags = tags, note_created = clock 0, note_modified = clock 1\<rparr>
      in if output result = lit ''folder not found'' then
           Inl (Error (lit ''Specified folder not found''))
         else if \<not> success result \<and> \<not> hasFolder then
           (let accountScript = createNote_accountScript sanitizedAccount sanitizedTitle sanitizedContent;
                accountResult = run accountScript
            in if \<not> success accountResult then Inl (Error (lit ''Failed to create note''))
               else Inr created_note)
         else if \<not> success result then Inl (Error (lit ''Failed to create note''))
         else Inr created_note)"

definition searchNotes ::
  "executor \<Rightarrow> (nat \<Rightarrow> jsstring) \<Rightarrow> (nat \<Rightarrow> int) \<Rightarrow> jsstring \<Rightarrow> jsstring \<Rightarrow> js_error + Note list" where
  "searchNotes run uuid clock accountName query =
     (let sanitizedQuery = sanitizeForAppleScript query;
          sanitizedAccount = sanitizeForAppleScript accountName;
          script = searchNotes_script sanitizedAccount sanitizedQuery;
          result = run script
      in if \<not> success result then Inl (Error (lit ''Failed to search notes''))
         else if output result = [] \<or> trim (output result) = [] then Inr []
         else Inr (map (\<lambda>(i, title). \<lparr>note_id = uuid i, note_title = trim title, note_content = [],
                                       note_tags = [], note_created = clock (2 * i),
                                       note_modified = clock (2 * i + 1)\<rparr>)
                    (enumerate 0 (filter (\<lambda>p. p \<noteq> []) (split_on COMMA (output result))))))"

definition getNoteContent :: "executor \<Rightarrow> jsstring \<Rightarrow> jsstring \<Rightarrow> js_error + jsstring" where
  "getNoteContent run accountName title =
     (let sanitizedTitle = sanitizeForAppleScript title;
          sanitizedAccount = sanitizeForAppleScript accountName;
          script = getNoteContent_script sanitizedAccount sanitizedTitle;
          result = run script
      in if \<not> success result then Inl (Error (lit ''Failed to get note content''))
         else Inr (output result))"

definition editNote ::
  "executor \<Rightarrow> (nat \<Rightarrow> jsstring) \<Rightarrow> (nat \<Rightarrow> int) \<Rightarrow> jsstring \<Rightarrow> jsstring \<Rightarrow> jsstring \<Rightarrow> EditResult" where
  "editNote run uuid clock accountName title newContent =
     (let sanitizedTitle = sanitizeForAppleScript title;
          sanitizedAccount = sanitizeForAppleScript accountName;
          formattedContent = formatContent newContent;
          sanitizedContent = sanitizeForAppleScript formattedContent;
          editScript = editNote_script sanitizedAccount sanitizedTitle sanitizedContent;
          editResult = run editScript
      in if \<not> success editResult then
           \<lparr>success = False, error = Some (lit ''Failed to update note''), note = None\<rparr>
         else if output editResult = lit ''not found'' then
           \<lparr>success = False, error = Some (lit ''Note not found''), note = None\<rparr>
         else
           \<lparr>success = True, error = None,
            note = Some \<lparr>note_id = uuid 0, note_title = title, note_content = newContent,
                         note_tags = [], note_created = clock 0, note_modified = clock 1\<rparr>\<rparr>)"

definition deleteNote :: "executor \<Rightarrow> jsstring \<Rightarrow> jsstring \<Rightarrow> StatusResult" where
  "deleteNote run accountName title =
     (let sanitizedTitle = sanitizeForAppleScript title;
          sanitizedAccount = sanitizeForAppleScript accountName;
          deleteScript = deleteNote_script sanitizedAccount sanitizedTitle;
          deleteResult = run deleteScript
      in if \<not> success deleteResult then
           \<lparr>success = False, error = Some (lit ''Failed to delete note'')\<rparr>
         else if output deleteResult = lit ''not found'' then
           \<lparr>success = False, error = Some (lit ''Note not found'')\<rparr>
         else \<lparr>success = True, error = None\<rparr>)"

definition getFolders :: "executor \<Rightarrow> (nat \<Rightarrow> jsstring) \<Rightarrow> jsstring \<Rightarrow> js_error + Folder list" where
  "getFolders run uuid accountName =
     (let sanitizedAccount = sanitizeForAppleScript accountName;
          script = getFolders_script sanitizedAccount;
          result = run script
      in if \<not> success result then Inl (Error (lit ''Failed to get folders''))
         else if output result = [] \<or> trim (output result) = [] then Inr []
         else Inr (filter (\<lambda>folder. folder_name folder \<noteq> [])
                    (map (\<lambda>(i, name). \<lparr>folder_id = uuid i, folder_name = trim name,
                                         folder_account = accountName\<rparr>)
                      (enumerate 0 (split_on COMMA (output result))))))"

text \<open>
  \<^verbatim>\<open>moveNote\<close> tests the output against two sentinels, one \<^verbatim>\<open>if\<close> after the other. To
  make the order of the two tests a part of the model, each test appends the sentinel it
  compares with to a log that is passed along; \<open>moveNote_traced\<close> returns the result
  together with the log, \<open>moveNote\<close> is its result.
\<close>

definition compare_output :: "jsstring \<Rightarrow> jsstring \<Rightarrow> jsstring list \<Rightarrow> bool \<times> jsstring list" where
  "compare_output out sentinel log = (out = sentinel, log @ [sentinel])"

definition moveNote_traced ::
  "executor \<Rightarrow> jsstring \<Rightarrow> jsstring \<Rightarrow> jsstring \<Rightarrow> StatusResult \<times> jsstring list" where
  "moveNote_traced run accountName noteTitle targetFolderName =
     (let sanitizedTitle = sanitizeForAppleScript noteTitle;
          sanitizedFolder = sanitizeForAppleScript targetFolderName;
          sanitizedAccount = sanitizeForAppleScript accountName;
          moveScript = moveNote_script sanitizedAccount sanitizedFolder sanitizedTitle;
          result = run moveScript
      in if \<not> success result then
           (\<lparr>success = False, error = Some (lit ''Failed to move note'')\<rparr>, [])
         else
           let (folderMissing, log1) = compare_output (output result) (lit ''folder not found'') []
           in if folderMissing then
                (\<lparr>success = False, error = Some (lit ''Target folder not found'')\<rparr>, log1)
              else
                let (noteMissing, log2) = compare_output (output result) (lit ''note not found'') log1
                in if noteMissing then
                     (\<lparr>success = False, error = Some (lit ''Note not found'')\<rparr>, log2)
                   else (\<lparr>success = True, error = None\<rparr>, log2))"

definition moveNote :: "executor \<Rightarrow> jsstring \<Rightarrow> jsstring \<Rightarrow> jsstring \<Rightarrow> StatusResult" where
  "moveNote run accountName noteTitle targetFolderName =
     fst (moveNote_traced run accountName noteTitle targetFolderName)"

subsection \<open>What the claims say about decoded names\<close>

text \<open>A string has surrounding whitespace when it starts or ends with a whitespace code unit.\<close>

definition has_outer_whitespace :: "jsstring \<Rightarrow> bool" where
  "has_outer_whitespace s \<longleftrightarrow> s \<noteq> [] \<and> (is_js_whitespace (hd s) \<or> is_js_whitespace (last s))"

section \<open>Example environments\<close>



definition constant_executor :: "AppleScriptResult \<Rightarrow> executor" where
  "constant_executor r script = r"

definition succeeds_only_on :: "jsstring \<Rightarrow> executor" where
  "succeeds_only_on good script =
     (if script = good then \<lparr>success = True, error = None, output = lit ''created''\<rparr>
      else \<lparr>success = False, error = Some (lit ''execution error''), output = []\<rparr>)"

definition example_uuid :: "nat \<Rightarrow> jsstring" where
  "example_uuid k = lit ''uuid-'' @ digit_string k"

definition example_clock :: "nat \<Rightarrow> int" where
  "example_clock k = 1700000000000 + int k"

section \<open>Properties of the sanitizer\<close>

lemma replace_global_append:
  "replace_global c r (xs @ ys) = replace_global c r xs @ replace_global c r ys"
  by (simp add: replace_global_def)

lemma replace_global_Cons:
  "replace_global c r (x # xs) = (if x = c then r else [x]) @ replace_global c r xs"
  by (simp add: replace_global_def)

lemma replace_global_Nil: "replace_global c r [] = []"
  by (simp add: replace_global_def)

lemma sanitize_single: "sanitizeForAppleScript [x] = escape_char x"
  by (simp add: sanitizeForAppleScript_def sanitize_stages_def Let_def escape_char_def
        replace_global_def)

lemma replace_global_concat:
  "replace_global c r (concat xss) = concat (map (replace_global c r) xss)"
  by (induction xss) (simp_all add: replace_global_Nil replace_global_append)

text \<open>
  A replacement applied to a text that is given character by character acts on the image
  of each character.
\<close>

lemma replace_global_images:
  "replace_global c r (concat (map f s)) = concat (map (\<lambda>x. replace_global c r (f x)) s)"
  by (simp add: replace_global_concat comp_def)

lemma escape_after_start: "concat (map (escape_after 0) s) = s"
  by (induction s) (simp_all add: escape_after_def)

text \<open>What each of the six replacements does to the images left by the ones before it.\<close>

lemma escape_after_steps:
  "replace_global BSLASH [BSLASH, BSLASH] (escape_after 0 x) = escape_after 1 x"
  "replace_global DQUOTE [BSLASH, DQUOTE] (escape_after 1 x) = escape_after 2 x"
  "replace_global SQUOTE [SQUOTE, DQUOTE, SQUOTE, DQUOTE, SQUOTE] (escape_after 2 x) = escape_after 3 x"
  "replace_global NEWLINE [BSLASH, LETTER_n] (escape_after 3 x) = escape_after 4 x"
  "replace_global CRETURN [BSLASH, LETTER_r] (escape_after 4 x) = escape_after 5 x"
  "replace_global TABCHAR [BSLASH, LETTER_t] (escape_after 5 x) = escape_after 6 x"
  by (simp_all add: escape_after_def replace_global_Cons replace_global_Nil)

lemma sanitize_stages_images:
  "sanitize_stages s =
     [concat (map (escape_after 1) s), concat (map (escape_after 2) s),
      concat (map (escape_after 3) s), concat (map (escape_after 4) s),
      concat (map (escape_after 5) s), concat (map (escape_after 6) s)]"
proof -
  have "replace_global BSLASH [BSLASH, BSLASH] (concat (map (escape_after 0) s))
          = concat (map (escape_after 1) s)"
    by (simp only: replace_global_images escape_after_steps)
  then have s1: "replace_global BSLASH [BSLASH, BSLASH] s = concat (map (escape_after 1) s)"
    by (simp only: escape_after_start)
  have s2: "replace_global DQUOTE [BSLASH, DQUOTE] (concat (map (escape_after 1) s))
          = concat (map (escape_after 2) s)"
    by (simp only: replace_global_images escape_after_steps)
  have s3: "replace_global SQUOTE [SQUOTE, DQUOTE, SQUOTE, DQUOTE, SQUOTE]
            (concat (map (escape_after 2) s)) = concat (map (escape_after 3) s)"
    by (simp only: replace_global_images escape_after_steps)
  have s4: "replace_global NEWLINE [BSLASH, LETTER_n] (concat (map (escape_after 3) s))
          = concat (map (escape_after 4) s)"
    by (simp only: replace_global_images escape_after_steps)
  have s5: "replace_global CRETURN [BSLASH, LETTER_r] (concat (map (escape_after 4) s))
          = concat (map (escape_after 5) s)"
    by (simp only: replace_global_images escape_after_steps)
  have s6: "replace_global TABCHAR [BSLASH, LETTER_t] (concat (map (escape_after 5) s))
          = concat (map (escape_after 6) s)"
    by (simp only: replace_global_images escape_after_steps)
  show ?thesis
    unfolding sanitize_stages_def Let_def
    by (simp only: s1 s2 s3 s4 s5 s6)
qed

lemma escape_after_all: "escape_after 6 = escape_char"
  by (rule ext) (simp add: escape_after_def escape_char_def)

text \<open>
  No replacement of the chain touches what an earlier one has produced, except where the
  chain is meant to: the whole chain is one pass that maps each character to its image.
\<close>

lemma sanitize_one_pass: "sanitizeForAppleScript s = concat (map escape_char s)"
  by (simp add: sanitizeForAppleScript_def sanitize_stages_images escape_after_all)

lemma literal_safe_escape_char:
  "x \<noteq> SQUOTE \<Longrightarrow> literal_safe (escape_char x @ rest) = literal_safe rest"
  by (cases rest) (auto simp add: escape_char_def)

text \<open>
  Without a single quote in the input the sanitized text is a safe literal body: the
  single-quote idiom is the only source of unescaped double quotes.
\<close>

lemma literal_safe_without_single_quote:
  "SQUOTE \<notin> set s \<Longrightarrow> literal_safe (sanitizeForAppleScript s)"
  by (induction s) (simp_all add: sanitize_one_pass literal_safe_escape_char)

text \<open>
  Claim C1: for every input, the sanitized text between double quotes has no unescaped
  double quote and no lone backslash before a quote. The code does not achieve this: for
  the title \<^verbatim>\<open>it's\<close>, which passes the title schema of index.ts, the single-quote
  idiom puts two bare double quotes into the literal, and the first one closes it.
\<close>

theorem sanitize_single_quote_breaks_literal:
  "sanitizeForAppleScript (lit ''it'' @ [SQUOTE] @ lit ''s'')
     = lit ''it'' @ [SQUOTE, DQUOTE, SQUOTE, DQUOTE, SQUOTE] @ lit ''s''
   \<and> \<not> literal_safe (sanitizeForAppleScript (lit ''it'' @ [SQUOTE] @ lit ''s''))"
  by (simp add: sanitize_one_pass escape_char_def lit_def)

lemma unescape_escape_char: "unescape (escape_char x @ rest) = x # unescape rest"
  by (cases rest) (auto simp add: escape_char_def)

lemma unescape_sanitize: "unescape (sanitizeForAppleScript s) = s"
  by (induction s) (simp_all add: sanitize_one_pass unescape_escape_char)

text \<open>
  Claim C2: for every input, the sanitized text embedded between double quotes and decoded
  by reversing the escape forms (backslash pairs and the single-quote idiom, in one pass
  from the left) is the input again.
\<close>

theorem sanitize_round_trip:
  "decode_literal (embed_literal (sanitizeForAppleScript s)) = Some s"
  by (simp add: decode_literal_def embed_literal_def unescape_sanitize)

text \<open>
  Claim C3: the sanitizer applies its transformations in this order on every input: first
  every backslash becomes two backslashes, then every double quote becomes backslash-quote,
  then every single quote becomes the concatenation idiom, then newline, carriage return
  and tab become their two-character forms; the empty input gives the empty string. Stated
  on the values of the six calls: the \<open>k\<close>-th value is the input with exactly the first
  \<open>k\<close> transformations applied to each of its characters, and the result is the sixth.
\<close>

theorem sanitize_transformation_order:
  "sanitize_stages s =
     [concat (map (escape_after 1) s), concat (map (escape_after 2) s),
      concat (map (escape_after 3) s), concat (map (escape_after 4) s),
      concat (map (escape_after 5) s), concat (map (escape_after 6) s)]
   \<and> sanitizeForAppleScript s = concat (map (escape_after 6) s)
   \<and> sanitizeForAppleScript [] = []"
proof -
  have "sanitizeForAppleScript s = concat (map (escape_after 6) s)"
    by (simp add: sanitizeForAppleScript_def sanitize_stages_images)
  moreover have "sanitizeForAppleScript [] = []"
    by (simp add: sanitizeForAppleScript_def)
  ultimately show ?thesis
    using sanitize_stages_images [of s] by simp
qed

text \<open>
  The result at one input for each transformation, and at an input that shows the order
  of the first two.
\<close>

lemma sanitize_examples:
  "sanitizeForAppleScript [BSLASH] = [BSLASH, BSLASH]"
  "sanitizeForAppleScript [DQUOTE] = [BSLASH, DQUOTE]"
  "sanitizeForAppleScript [SQUOTE] = [SQUOTE, DQUOTE, SQUOTE, DQUOTE, SQUOTE]"
  "sanitizeForAppleScript [NEWLINE] = [BSLASH, LETTER_n]"
  "sanitizeForAppleScript [CRETURN] = [BSLASH, LETTER_r]"
  "sanitizeForAppleScript [TABCHAR] = [BSLASH, LETTER_t]"
  "sanitize_stages [BSLASH, DQUOTE] ! 0 = [BSLASH, BSLASH, DQUOTE]"
  "sanitize_stages [BSLASH, DQUOTE] ! 1 = [BSLASH, BSLASH, BSLASH, DQUOTE]"
  by (simp_all add: sanitize_single escape_char_def sanitize_stages_images escape_after_def)

text \<open>
  The order is observable: with the backslash step after the double-quote step, the
  backslash that escapes a quote would be doubled.
\<close>

lemma backslash_first_matters:
  "sanitizeForAppleScript [DQUOTE] = [BSLASH, DQUOTE]
   \<and> replace_global BSLASH [BSLASH, BSLASH] (replace_global DQUOTE [BSLASH, DQUOTE] [DQUOTE])
       = [BSLASH, BSLASH, DQUOTE]"
  by (simp add: sanitize_single escape_char_def replace_global_def)

section \<open>Properties of the executor\<close>



lemma foldl_on_event_data:
  "\<forall>e \<in> set pre. is_data e \<Longrightarrow>
   foldl (on_event utf8) st pre =
     st\<lparr>chunks := chunks st @ concat (map (\<lambda>e. case e of StdoutData c \<Rightarrow> [c] | _ \<Rightarrow> []) pre),
        errorChunks := errorChunks st @ concat (map (\<lambda>e. case e of StderrData c \<Rightarrow> [c] | _ \<Rightarrow> []) pre)\<rparr>"
proof (induction pre arbitrary: st)
  case Nil
  then show ?case by simp
next
  case (Cons e pre)
  then show ?case by (cases e) simp_all
qed










text \<open>
  Nothing but an exit or error event settles the promise: while the child delivers output
  chunks only, the caller keeps waiting.
\<close>

lemma runAppleScript_pending:
  "\<forall>e \<in> set (os script). is_data e \<Longrightarrow> runAppleScript utf8 os script = None"
  by (simp add: runAppleScript_def foldl_on_event_data)

lemma on_event_failed_output:
  assumes "\<forall>r. resolved st = Some r \<longrightarrow> success r \<or> output r = []"
  shows "\<forall>r. resolved (on_event utf8 st e) = Some r \<longrightarrow> success r \<or> output r = []"
  using assms by (cases e) (auto simp add: resolve_def Let_def split: option.splits)

lemma foldl_on_event_failed_output:
  "\<forall>r. resolved st = Some r \<longrightarrow> success r \<or> output r = [] \<Longrightarrow>
   \<forall>r. resolved (foldl (on_event utf8) st evs) = Some r \<longrightarrow> success r \<or> output r = []"
proof (induction evs arbitrary: st)
  case Nil
  then show ?case by simp
next
  case (Cons e evs)
  show ?case
    using Cons.IH [OF on_event_failed_output [OF Cons.prems, of utf8 e]] by simp
qed

text \<open>
  A failed outcome of the executor carries no output, so no sentinel can be read from it.
\<close>

lemma failed_outcome_has_empty_output:
  "runAppleScript utf8 os script = Some r \<Longrightarrow> \<not> success r \<Longrightarrow> output r = []"
  using foldl_on_event_failed_output
          [of "\<lparr>chunks = [], errorChunks = [], resolved = None\<rparr>" utf8 "os script"]
  by (simp add: runAppleScript_def)

section \<open>Properties of the result decoding\<close>

lemma split_on_not_Nil: "split_on c s \<noteq> []"
  by (induction s) (simp_all add: Let_def)

lemma length_split_on: "length (split_on c s) = Suc (count_list s c)"
  by (induction s) (auto simp add: Let_def split_on_not_Nil)

lemma split_on_pieces_free: "p \<in> set (split_on c s) \<Longrightarrow> c \<notin> set p"
proof (induction s arbitrary: p)
  case Nil
  then show ?case by simp
next
  case (Cons x xs)
  obtain q qs where r: "split_on c xs = q # qs"
    using split_on_not_Nil [of c xs] by (cases "split_on c xs") auto
  show ?case
  proof (cases "x = c")
    case True
    with Cons show ?thesis by (auto simp add: Let_def)
  next
    case False
    with Cons.prems r have "p = x # q \<or> p \<in> set qs" by (auto simp add: Let_def)
    moreover have "c \<notin> set q" using Cons.IH [of q] r by simp
    moreover have "p \<in> set qs \<Longrightarrow> c \<notin> set p" using Cons.IH [of p] r by simp
    ultimately show ?thesis using False by auto
  qed
qed

lemma set_trim: "set (trim s) \<subseteq> set s"
proof -
  have "set (trim s) = set (dropWhile is_js_whitespace (rev (dropWhile is_js_whitespace s)))"
    by (simp add: trim_def)
  also have "\<dots> \<subseteq> set (rev (dropWhile is_js_whitespace s))"
    by (auto dest: set_dropWhileD)
  also have "\<dots> \<subseteq> set s"
    by (auto dest: set_dropWhileD)
  finally show ?thesis .
qed

lemma dropWhile_Nil_iff_all: "dropWhile P xs = [] \<longleftrightarrow> (\<forall>x \<in> set xs. P x)"
  by (induction xs) auto

text \<open>Trimming leaves nothing exactly when the string is blank.\<close>

lemma trim_Nil_iff: "trim s = [] \<longleftrightarrow> (\<forall>x \<in> set s. is_js_whitespace x)"
proof
  assume empty: "trim s = []"
  show "\<forall>x \<in> set s. is_js_whitespace x"
  proof (rule ccontr)
    assume "\<not> (\<forall>x \<in> set s. is_js_whitespace x)"
    then have nonempty: "dropWhile is_js_whitespace s \<noteq> []"
      by (simp add: dropWhile_Nil_iff_all)
    then have "\<not> is_js_whitespace (hd (dropWhile is_js_whitespace s))"
      by (rule hd_dropWhile)
    moreover have "hd (dropWhile is_js_whitespace s) \<in> set (dropWhile is_js_whitespace s)"
      using nonempty by simp
    moreover have "\<forall>x \<in> set (dropWhile is_js_whitespace s). is_js_whitespace x"
      using empty by (simp add: trim_def dropWhile_Nil_iff_all)
    ultimately show False by blast
  qed
next
  assume "\<forall>x \<in> set s. is_js_whitespace x"
  then have blank: "dropWhile is_js_whitespace s = []"
    by (simp add: dropWhile_Nil_iff_all)
  show "trim s = []"
    unfolding trim_def blank by simp
qed

lemma comma_not_whitespace: "\<not> is_js_whitespace COMMA"
  by (simp add: is_js_whitespace_def)

lemma trim_not_Nil: "x \<in> set s \<Longrightarrow> \<not> is_js_whitespace x \<Longrightarrow> trim s \<noteq> []"
  by (auto simp add: trim_Nil_iff)

lemma trimmed_piece_free: "p \<in> set (split_on c s) \<Longrightarrow> c \<notin> set (trim p)"
  using split_on_pieces_free [of p c s] set_trim [of p] by blast

lemma rev_dropWhile_rev_prefix:
  "xs = rev (dropWhile P (rev xs)) @ rev (takeWhile P (rev xs))"
  by (metis rev_append rev_rev_ident takeWhile_dropWhile_id)

lemma trim_prefix: "\<exists>ys. dropWhile is_js_whitespace s = trim s @ ys"
  unfolding trim_def using rev_dropWhile_rev_prefix [of "dropWhile is_js_whitespace s" is_js_whitespace]
  by blast

lemma trim_no_outer_whitespace: "\<not> has_outer_whitespace (trim s)"
proof (cases "trim s = []")
  case True
  then show ?thesis by (simp add: has_outer_whitespace_def)
next
  case False
  obtain ys where ys: "dropWhile is_js_whitespace s = trim s @ ys"
    using trim_prefix by blast
  have "hd (trim s) = hd (dropWhile is_js_whitespace s)"
    using False ys by simp
  moreover have "dropWhile is_js_whitespace s \<noteq> []"
    using False ys by simp
  ultimately have leading: "\<not> is_js_whitespace (hd (trim s))"
    by (simp add: hd_dropWhile)
  have "last (trim s) = hd (dropWhile is_js_whitespace (rev (dropWhile is_js_whitespace s)))"
    using False by (simp add: trim_def last_rev)
  moreover have "dropWhile is_js_whitespace (rev (dropWhile is_js_whitespace s)) \<noteq> []"
    using False by (simp add: trim_def)
  ultimately have trailing: "\<not> is_js_whitespace (last (trim s))"
    by (simp add: hd_dropWhile)
  show ?thesis using leading trailing by (simp add: has_outer_whitespace_def)
qed

lemma titles_of_decoded_notes:
  "map note_title
     (map (\<lambda>(i, title). \<lparr>note_id = uuid i, note_title = trim title, note_content = [],
                          note_tags = [], note_created = clock (2 * i),
                          note_modified = clock (2 * i + 1)\<rparr>) (enumerate k ps))
   = map trim ps"
  by (induction ps arbitrary: k) simp_all

lemma names_of_decoded_folders:
  "map folder_name
     (filter (\<lambda>folder. folder_name folder \<noteq> [])
       (map (\<lambda>(i, name). \<lparr>folder_id = uuid i, folder_name = trim name,
                            folder_account = accountName\<rparr>) (enumerate k ps)))
   = filter (\<lambda>n. n \<noteq> []) (map trim ps)"
  by (induction ps arbitrary: k) simp_all

lemma simple_script_differs:
  "createNote_simpleScript t c \<noteq> createNote_accountScript a t c"
  by (simp add: createNote_simpleScript_def createNote_accountScript_def lit_def)

lemmas operation_defs =
  createNote_def searchNotes_def getNoteContent_def editNote_def deleteNote_def
  moveNote_def moveNote_traced_def compare_output_def getFolders_def getAccounts_def

text \<open>
  Claim C6 says that every operation checks \<open>success\<close> first and that a failed outcome
  never leads to a success result. \<^verbatim>\<open>createNote\<close> without a folder does otherwise: when
  the plain script fails it runs the account-scoped script, and returns the new note if
  that one succeeds.
\<close>

theorem createNote_retry_counterexample:
  "\<not> success (succeeds_only_on
        (createNote_accountScript (sanitizeForAppleScript (lit ''iCloud''))
           (sanitizeForAppleScript (lit ''T'')) (sanitizeForAppleScript (formatContent (lit ''C''))))
        (createNote_simpleScript (sanitizeForAppleScript (lit ''T''))
           (sanitizeForAppleScript (formatContent (lit ''C'')))))
   \<and> createNote
        (succeeds_only_on
          (createNote_accountScript (sanitizeForAppleScript (lit ''iCloud''))
             (sanitizeForAppleScript (lit ''T'')) (sanitizeForAppleScript (formatContent (lit ''C'')))))
        example_uuid example_clock (lit ''iCloud'') (lit ''T'') (lit ''C'') [] None
      = Inr \<lparr>note_id = example_uuid 0, note_title = lit ''T'', note_content = lit ''C'',
              note_tags = [], note_created = example_clock 0, note_modified = example_clock 1\<rparr>"
  by (simp add: createNote_def succeeds_only_on_def simple_script_differs Let_def lit_def)

text \<open>
  Claim C6, amended: \<^verbatim>\<open>searchNotes\<close>, \<^verbatim>\<open>getNoteContent\<close>, \<^verbatim>\<open>editNote\<close>, \<^verbatim>\<open>deleteNote\<close>,
  \<^verbatim>\<open>moveNote\<close> and \<^verbatim>\<open>getFolders\<close> check \<open>success\<close> first: a failed outcome gives the
  hard failure of the operation, whatever its output. \<^verbatim>\<open>createNote\<close> with a folder gives
  its hard failure on a failed outcome whose output is not the folder sentinel;
  \<^verbatim>\<open>createNote\<close> without a folder (the folder absent or the empty string) runs the
  account-scoped script after such a failed outcome, and gives the hard failure if that
  fails too, the created note otherwise.
\<close>

theorem failed_outcome_is_hard_failure:
  "(\<not> success (run (searchNotes_script (sanitizeForAppleScript accountName) (sanitizeForAppleScript query))) \<longrightarrow>
      searchNotes run uuid clock accountName query = Inl (Error (lit ''Failed to search notes'')))
   \<and> (\<not> success (run (getNoteContent_script (sanitizeForAppleScript accountName) (sanitizeForAppleScript title))) \<longrightarrow>
      getNoteContent run accountName title = Inl (Error (lit ''Failed to get note content'')))
   \<and> (\<not> success (run (editNote_script (sanitizeForAppleScript accountName) (sanitizeForAppleScript title) (sanitizeForAppleScript (formatContent newContent)))) \<longrightarrow>
      editNote run uuid clock accountName title newContent
        = \<lparr>success = False, error = Some (lit ''Failed to update note''), note = None\<rparr>)
   \<and> (\<not> success (run (deleteNote_script (sanitizeForAppleScript accountName) (sanitizeForAppleScript title))) \<longrightarrow>
      deleteNote run accountName title
        = \<lparr>success = False, error = Some (lit ''Failed to delete note'')\<rparr>)
   \<and> (\<not> success (run (moveNote_script (sanitizeForAppleScript accountName) (sanitizeForAppleScript targetFolderName) (sanitizeForAppleScript noteTitle))) \<longrightarrow>
      moveNote run accountName noteTitle targetFolderName
        = \<lparr>success = False, error = Some (lit ''Failed to move note'')\<rparr>)
   \<and> (\<not> success (run (getFolders_script (sanitizeForAppleScript accountName))) \<longrightarrow>
      getFolders run uuid accountName = Inl (Error (lit ''Failed to get folders'')))
   \<and> (folder \<noteq> [] \<and> \<not> success (run (createNote_folderScript (sanitizeForAppleScript accountName) (sanitizeForAppleScript folder) (sanitizeForAppleScript title) (sanitizeForAppleScript (formatContent content))))
        \<and> output (run (createNote_folderScript (sanitizeForAppleScript accountName) (sanitizeForAppleScript folder) (sanitizeForAppleScript title) (sanitizeForAppleScript (formatContent content)))) \<noteq> lit ''folder not found'' \<longrightarrow>
      createNote run uuid clock accountName title content tags (Some folder)
        = Inl (Error (lit ''Failed to create note'')))
   \<and> ((absent = None \<or> absent = Some [])
        \<and> \<not> success (run (createNote_simpleScript (sanitizeForAppleScript title) (sanitizeForAppleScript (formatContent content))))
        \<and> output (run (createNote_simpleScript (sanitizeForAppleScript title) (sanitizeForAppleScript (formatContent content)))) \<noteq> lit ''folder not found'' \<longrightarrow>
      createNote run uuid clock accountName title content tags absent
        = (if success (run (createNote_accountScript (sanitizeForAppleScript accountName) (sanitizeForAppleScript title) (sanitizeForAppleScript (formatContent content))))
           then Inr \<lparr>note_id = uuid 0, note_title = title, note_content = content, note_tags = tags, note_created = clock 0, note_modified = clock 1\<rparr>
           else Inl (Error (lit ''Failed to create note''))))"
  proof (cases absent)
  case None
  then show ?thesis by (simp add: operation_defs Let_def)
next
  case (Some f)
  then show ?thesis by (simp add: operation_defs Let_def)
qed

theorem failed_outcome_is_hard_failure_witness:
  "searchNotes (constant_executor \<lparr>success = False, error = Some (lit ''spawn osascript ENOENT''), output = []\<rparr>) example_uuid example_clock (lit ''iCloud'') (lit ''milk'')
     = Inl (Error (lit ''Failed to search notes''))
   \<and> getNoteContent (constant_executor \<lparr>success = False, error = Some (lit ''spawn osascript ENOENT''), output = []\<rparr>) (lit ''iCloud'') (lit ''Groceries'')
     = Inl (Error (lit ''Failed to get note content''))
   \<and> editNote (constant_executor \<lparr>success = False, error = Some (lit ''spawn osascript ENOENT''), output = []\<rparr>) example_uuid example_clock (lit ''iCloud'') (lit ''Groceries'') (lit ''eggs'')
     = \<lparr>success = False, error = Some (lit ''Failed to update note''), note = None\<rparr>
   \<and> deleteNote (constant_executor \<lparr>success = False, error = Some (lit ''spawn osascript ENOENT''), output = []\<rparr>) (lit ''iCloud'') (lit ''Groceries'')
     = \<lparr>success = False, error = Some (lit ''Failed to delete note'')\<rparr>
   \<and> moveNote (constant_executor \<lparr>success = False, error = Some (lit ''spawn osascript ENOENT''), output = []\<rparr>) (lit ''iCloud'') (lit ''Groceries'') (lit ''Home'')
     = \<lparr>success = False, error = Some (lit ''Failed to move note'')\<rparr>
   \<and> getFolders (constant_executor \<lparr>success = False, error = Some (lit ''spawn osascript ENOENT''), output = []\<rparr>) example_uuid (lit ''iCloud'')
     = Inl (Error (lit ''Failed to get folders''))
   \<and> createNote (constant_executor \<lparr>success = False, error = Some (lit ''spawn osascript ENOENT''), output = []\<rparr>) example_uuid example_clock (lit ''iCloud'') (lit ''Groceries'') (lit ''eggs'') []
        (Some (lit ''Home''))
     = Inl (Error (lit ''Failed to create note''))
   \<and> createNote (constant_executor \<lparr>success = False, error = Some (lit ''spawn osascript ENOENT''), output = []\<rparr>) example_uuid example_clock (lit ''iCloud'') (lit ''Groceries'') (lit ''eggs'') []
        None
     = Inl (Error (lit ''Failed to create note''))
   \<and> createNote (constant_executor \<lparr>success = False, error = Some (lit ''spawn osascript ENOENT''), output = []\<rparr>) example_uuid example_clock (lit ''iCloud'') (lit ''Groceries'') (lit ''eggs'') []
        (Some [])
     = Inl (Error (lit ''Failed to create note''))
   \<and> createNote
        (succeeds_only_on
          (createNote_accountScript (sanitizeForAppleScript (lit ''iCloud''))
             (sanitizeForAppleScript (lit ''Groceries''))
             (sanitizeForAppleScript (formatContent (lit ''eggs'')))))
        example_uuid example_clock (lit ''iCloud'') (lit ''Groceries'') (lit ''eggs'') [] (Some [])
     = Inr \<lparr>note_id = example_uuid 0, note_title = lit ''Groceries'', note_content = lit ''eggs'', note_tags = [], note_created = example_clock 0, note_modified = example_clock 1\<rparr>"
  using failed_outcome_is_hard_failure
          [where run = "(constant_executor \<lparr>success = False, error = Some (lit ''spawn osascript ENOENT''), output = []\<rparr>)" and uuid = example_uuid and clock = example_clock
             and accountName = "lit ''iCloud''" and query = "lit ''milk''"
             and title = "lit ''Groceries''" and noteTitle = "lit ''Groceries''"
             and newContent = "lit ''eggs''" and content = "lit ''eggs''"
             and targetFolderName = "lit ''Home''" and folder = "lit ''Home''" and tags = "[]"
             and absent = None]
        failed_outcome_is_hard_failure
          [where run = "(constant_executor \<lparr>success = False, error = Some (lit ''spawn osascript ENOENT''), output = []\<rparr>)" and uuid = example_uuid and clock = example_clock
             and accountName = "lit ''iCloud''" and query = "lit ''milk''"
             and title = "lit ''Groceries''" and noteTitle = "lit ''Groceries''"
             and newContent = "lit ''eggs''" and content = "lit ''eggs''"
             and targetFolderName = "lit ''Home''" and folder = "lit ''Home''" and tags = "[]"
             and absent = "Some []"]
        failed_outcome_is_hard_failure
          [where run = "(succeeds_only_on
          (createNote_accountScript (sanitizeForAppleScript (lit ''iCloud''))
             (sanitizeForAppleScript (lit ''Groceries''))
             (sanitizeForAppleScript (formatContent (lit ''eggs'')))))" and uuid = example_uuid and clock = example_clock
             and accountName = "lit ''iCloud''" and query = "lit ''milk''"
             and title = "lit ''Groceries''" and noteTitle = "lit ''Groceries''"
             and newContent = "lit ''eggs''" and content = "lit ''eggs''"
             and targetFolderName = "lit ''Home''" and folder = "lit ''Home''" and tags = "[]"
             and absent = "Some []"]
  by (simp add: constant_executor_def succeeds_only_on_def simple_script_differs lit_def)

text \<open>
  Claim C7: for a successful outcome \<^verbatim>\<open>moveNote\<close> compares the output with
  \<^verbatim>\<open>folder not found\<close> first, and with \<^verbatim>\<open>note not found\<close> only after that comparison
  has failed: the folder sentinel is the first entry of the comparison log in every case,
  the note sentinel the second and only when the output is not the folder sentinel. The
  result follows that order. No output is both sentinels.
\<close>

theorem moveNote_sentinel_priority:
  "success (run (moveNote_script (sanitizeForAppleScript accountName) (sanitizeForAppleScript targetFolderName) (sanitizeForAppleScript noteTitle))) \<Longrightarrow>
   snd (moveNote_traced run accountName noteTitle targetFolderName) =
     (if output (run (moveNote_script (sanitizeForAppleScript accountName) (sanitizeForAppleScript targetFolderName) (sanitizeForAppleScript noteTitle))) = lit ''folder not found''
        then [lit ''folder not found'']
      else [lit ''folder not found'', lit ''note not found''])
   \<and> moveNote run accountName noteTitle targetFolderName =
     (if output (run (moveNote_script (sanitizeForAppleScript accountName) (sanitizeForAppleScript targetFolderName) (sanitizeForAppleScript noteTitle))) = lit ''folder not found''
        then \<lparr>success = False, error = Some (lit ''Target folder not found'')\<rparr>
      else if output (run (moveNote_script (sanitizeForAppleScript accountName) (sanitizeForAppleScript targetFolderName) (sanitizeForAppleScript noteTitle))) = lit ''note not found''
        then \<lparr>success = False, error = Some (lit ''Note not found'')\<rparr>
      else \<lparr>success = True, error = None\<rparr>)
   \<and> lit ''folder not found'' \<noteq> lit ''note not found''"
  by (simp add: moveNote_def moveNote_traced_def compare_output_def Let_def lit_def)

theorem moveNote_sentinel_priority_witness:
  "moveNote_traced (constant_executor \<lparr>success = True, error = None, output = lit ''folder not found''\<rparr>) (lit ''iCloud'') (lit ''Groceries'') (lit ''Home'')
     = (\<lparr>success = False, error = Some (lit ''Target folder not found'')\<rparr>,
        [lit ''folder not found''])
   \<and> moveNote_traced (constant_executor \<lparr>success = True, error = None, output = lit ''note not found''\<rparr>) (lit ''iCloud'') (lit ''Groceries'') (lit ''Home'')
     = (\<lparr>success = False, error = Some (lit ''Note not found'')\<rparr>,
        [lit ''folder not found'', lit ''note not found''])
   \<and> moveNote_traced (constant_executor \<lparr>success = True, error = None, output = lit ''success''\<rparr>) (lit ''iCloud'') (lit ''Groceries'') (lit ''Home'')
     = (\<lparr>success = True, error = None\<rparr>,
        [lit ''folder not found'', lit ''note not found''])"
  using moveNote_sentinel_priority
          [where run = "(constant_executor \<lparr>success = True, error = None, output = lit ''folder not found''\<rparr>)" and accountName = "lit ''iCloud''"
             and noteTitle = "lit ''Groceries''" and targetFolderName = "lit ''Home''"]
        moveNote_sentinel_priority
          [where run = "(constant_executor \<lparr>success = True, error = None, output = lit ''note not found''\<rparr>)" and accountName = "lit ''iCloud''"
             and noteTitle = "lit ''Groceries''" and targetFolderName = "lit ''Home''"]
        moveNote_sentinel_priority
          [where run = "(constant_executor \<lparr>success = True, error = None, output = lit ''success''\<rparr>)" and accountName = "lit ''iCloud''"
             and noteTitle = "lit ''Groceries''" and targetFolderName = "lit ''Home''"]
  by (simp add: constant_executor_def moveNote_def prod_eq_iff lit_def)

text \<open>
  Claim C8: for a successful outcome with empty or whitespace-only output,
  \<^verbatim>\<open>searchNotes\<close> and \<^verbatim>\<open>getFolders\<close> return the empty list; and no title or name they
  return has surrounding whitespace.
\<close>

theorem empty_output_is_empty_collection:
  "(success (run (searchNotes_script (sanitizeForAppleScript accountName) (sanitizeForAppleScript query))) \<and> (output (run (searchNotes_script (sanitizeForAppleScript accountName) (sanitizeForAppleScript query))) = [] \<or> trim (output (run (searchNotes_script (sanitizeForAppleScript accountName) (sanitizeForAppleScript query)))) = []) \<longrightarrow>
      searchNotes run uuid clock accountName query = Inr [])
   \<and> (success (run (getFolders_script (sanitizeForAppleScript accountName))) \<and> (output (run (getFolders_script (sanitizeForAppleScript accountName))) = [] \<or> trim (output (run (getFolders_script (sanitizeForAppleScript accountName)))) = []) \<longrightarrow>
      getFolders run uuid accountName = Inr [])
   \<and> (\<forall>notes. searchNotes run uuid clock accountName query = Inr notes \<longrightarrow>
        (\<forall>n \<in> set notes. \<not> has_outer_whitespace (note_title n)))
   \<and> (\<forall>folders. getFolders run uuid accountName = Inr folders \<longrightarrow>
        (\<forall>f \<in> set folders. \<not> has_outer_whitespace (folder_name f)))"
proof -
  have a: "success (run (searchNotes_script (sanitizeForAppleScript accountName) (sanitizeForAppleScript query))) \<and> (output (run (searchNotes_script (sanitizeForAppleScript accountName) (sanitizeForAppleScript query))) = [] \<or> trim (output (run (searchNotes_script (sanitizeForAppleScript accountName) (sanitizeForAppleScript query)))) = []) \<longrightarrow>
      searchNotes run uuid clock accountName query = Inr []"
    by (simp add: searchNotes_def Let_def)
  have b: "success (run (getFolders_script (sanitizeForAppleScript accountName))) \<and> (output (run (getFolders_script (sanitizeForAppleScript accountName))) = [] \<or> trim (output (run (getFolders_script (sanitizeForAppleScript accountName)))) = []) \<longrightarrow>
      getFolders run uuid accountName = Inr []"
    by (simp add: getFolders_def Let_def)
  have c: "\<forall>n \<in> set found. \<not> has_outer_whitespace (note_title n)"
    if "searchNotes run uuid clock accountName query = Inr found" for found
    using that
    by (auto simp add: searchNotes_def Let_def trim_no_outer_whitespace in_set_enumerate_eq
        split: if_splits)
  have d: "\<forall>f \<in> set listed. \<not> has_outer_whitespace (folder_name f)"
    if "getFolders run uuid accountName = Inr listed" for listed
    using that
    by (auto simp add: getFolders_def Let_def trim_no_outer_whitespace in_set_enumerate_eq
        split: if_splits)
  show ?thesis using a b c d by blast
qed

theorem empty_output_is_empty_collection_witness:
  "searchNotes (constant_executor \<lparr>success = True, error = None, output = lit ''  ''\<rparr>) example_uuid example_clock (lit ''iCloud'') (lit ''milk'') = Inr []
   \<and> getFolders (constant_executor \<lparr>success = True, error = None, output = lit ''  ''\<rparr>) example_uuid (lit ''iCloud'') = Inr []
   \<and> searchNotes (constant_executor \<lparr>success = True, error = None, output = lit '' Notes , Work''\<rparr>) example_uuid example_clock (lit ''iCloud'') (lit ''milk'')
       = Inr [\<lparr>note_id = example_uuid 0, note_title = lit ''Notes'', note_content = [], note_tags = [], note_created = example_clock 0, note_modified = example_clock 1\<rparr>,
              \<lparr>note_id = example_uuid 1, note_title = lit ''Work'', note_content = [], note_tags = [], note_created = example_clock 2, note_modified = example_clock 3\<rparr>]
   \<and> getFolders (constant_executor \<lparr>success = True, error = None, output = lit '' Notes , Work''\<rparr>) example_uuid (lit ''iCloud'')
       = Inr [\<lparr>folder_id = example_uuid 0, folder_name = lit ''Notes'', folder_account = lit ''iCloud''\<rparr>,
              \<lparr>folder_id = example_uuid 1, folder_name = lit ''Work'', folder_account = lit ''iCloud''\<rparr>]
   \<and> \<not> has_outer_whitespace (lit ''Notes'') \<and> \<not> has_outer_whitespace (lit ''Work'')"
  using empty_output_is_empty_collection
          [where run = "(constant_executor \<lparr>success = True, error = None, output = lit ''  ''\<rparr>)" and uuid = example_uuid and clock = example_clock
             and accountName = "lit ''iCloud''" and query = "lit ''milk''"]
        empty_output_is_empty_collection
          [where run = "(constant_executor \<lparr>success = True, error = None, output = lit '' Notes , Work''\<rparr>)" and uuid = example_uuid and clock = example_clock
             and accountName = "lit ''iCloud''" and query = "lit ''milk''"]
  by (simp add: constant_executor_def searchNotes_def getFolders_def Let_def lit_def trim_def
        is_js_whitespace_def has_outer_whitespace_def enumerate_eq_zip)

lemma error_field_never_read:
  "createNote (\<lambda>script. (run script)\<lparr>error := e script\<rparr>) uuid clock accountName title content tags folder
     = createNote run uuid clock accountName title content tags folder"
  "searchNotes (\<lambda>script. (run script)\<lparr>error := e script\<rparr>) uuid clock accountName query
     = searchNotes run uuid clock accountName query"
  "getNoteContent (\<lambda>script. (run script)\<lparr>error := e script\<rparr>) accountName title
     = getNoteContent run accountName title"
  "editNote (\<lambda>script. (run script)\<lparr>error := e script\<rparr>) uuid clock accountName title newContent
     = editNote run uuid clock accountName title newContent"
  "deleteNote (\<lambda>script. (run script)\<lparr>error := e script\<rparr>) accountName title
     = deleteNote run accountName title"
  "moveNote (\<lambda>script. (run script)\<lparr>error := e script\<rparr>) accountName noteTitle targetFolderName
     = moveNote run accountName noteTitle targetFolderName"
  "getFolders (\<lambda>script. (run script)\<lparr>error := e script\<rparr>) uuid accountName
     = getFolders run uuid accountName"
  "getAccounts (\<lambda>script. (run script)\<lparr>error := e script\<rparr>) = getAccounts run"
  by (simp_all add: operation_defs Let_def)

text \<open>
  Claim C9: two executors that fail and differ in their error text only give the same
  result in every operation, and the message of that result is a fixed, generic string of
  the operation: the error text of the process layer is never passed on.
\<close>

theorem error_text_never_surfaced:
  assumes "\<forall>script. \<not> success (run1 script) \<and> \<not> success (run2 script)
             \<and> output (run1 script) = output (run2 script)"
  shows "createNote run1 uuid clock accountName title content tags folder
           = createNote run2 uuid clock accountName title content tags folder
       \<and> (createNote run1 uuid clock accountName title content tags folder
             = Inl (Error (lit ''Failed to create note''))
          \<or> createNote run1 uuid clock accountName title content tags folder
             = Inl (Error (lit ''Specified folder not found'')))
       \<and> searchNotes run1 uuid clock accountName query = Inl (Error (lit ''Failed to search notes''))
       \<and> searchNotes run2 uuid clock accountName query = Inl (Error (lit ''Failed to search notes''))
       \<and> getNoteContent run1 accountName title = Inl (Error (lit ''Failed to get note content''))
       \<and> getNoteContent run2 accountName title = Inl (Error (lit ''Failed to get note content''))
       \<and> editNote run1 uuid clock accountName title newContent
            = \<lparr>success = False, error = Some (lit ''Failed to update note''), note = None\<rparr>
       \<and> editNote run2 uuid clock accountName title newContent
            = \<lparr>success = False, error = Some (lit ''Failed to update note''), note = None\<rparr>
       \<and> deleteNote run1 accountName title
            = \<lparr>success = False, error = Some (lit ''Failed to delete note'')\<rparr>
       \<and> deleteNote run2 accountName title
            = \<lparr>success = False, error = Some (lit ''Failed to delete note'')\<rparr>
       \<and> moveNote run1 accountName noteTitle targetFolderName
            = \<lparr>success = False, error = Some (lit ''Failed to move note'')\<rparr>
       \<and> moveNote run2 accountName noteTitle targetFolderName
            = \<lparr>success = False, error = Some (lit ''Failed to move note'')\<rparr>
       \<and> getFolders run1 uuid accountName = Inl (Error (lit ''Failed to get folders''))
       \<and> getFolders run2 uuid accountName = Inl (Error (lit ''Failed to get folders''))
       \<and> getAccounts run1 = Inl (Error (lit ''Failed to get accounts''))
       \<and> getAccounts run2 = Inl (Error (lit ''Failed to get accounts''))"
proof -
  have create: "createNote run1 uuid clock accountName title content tags folder
           = createNote run2 uuid clock accountName title content tags folder"
    using assms by (simp add: createNote_def Let_def)
  have generic: "createNote run1 uuid clock accountName title content tags folder
             = Inl (Error (lit ''Failed to create note''))
          \<or> createNote run1 uuid clock accountName title content tags folder
             = Inl (Error (lit ''Specified folder not found''))"
    using assms by (simp add: createNote_def Let_def)
  have others: "searchNotes run1 uuid clock accountName query = Inl (Error (lit ''Failed to search notes''))"
    "searchNotes run2 uuid clock accountName query = Inl (Error (lit ''Failed to search notes''))"
    "getNoteContent run1 accountName title = Inl (Error (lit ''Failed to get note content''))"
    "getNoteContent run2 accountName title = Inl (Error (lit ''Failed to get note content''))"
    "editNote run1 uuid clock accountName title newContent
            = \<lparr>success = False, error = Some (lit ''Failed to update note''), note = None\<rparr>"
    "editNote run2 uuid clock accountName title newContent
            = \<lparr>success = False, error = Some (lit ''Failed to update note''), note = None\<rparr>"
    "deleteNote run1 accountName title
            = \<lparr>success = False, error = Some (lit ''Failed to delete note'')\<rparr>"
    "deleteNote run2 accountName title
            = \<lparr>success = False, error = Some (lit ''Failed to delete note'')\<rparr>"
    "moveNote run1 accountName noteTitle targetFolderName
            = \<lparr>success = False, error = Some (lit ''Failed to move note'')\<rparr>"
    "moveNote run2 accountName noteTitle targetFolderName
            = \<lparr>success = False, error = Some (lit ''Failed to move note'')\<rparr>"
    "getFolders run1 uuid accountName = Inl (Error (lit ''Failed to get folders''))"
    "getFolders run2 uuid accountName = Inl (Error (lit ''Failed to get folders''))"
    "getAccounts run1 = Inl (Error (lit ''Failed to get accounts''))"
    "getAccounts run2 = Inl (Error (lit ''Failed to get accounts''))"
    using assms by (simp_all add: operation_defs Let_def)
  show ?thesis
    using create generic others by blast
qed

theorem error_text_never_surfaced_witness:
  "createNote (constant_executor \<lparr>success = False, error = Some (lit ''spawn osascript ENOENT''), output = []\<rparr>) example_uuid example_clock (lit ''iCloud'') (lit ''Groceries'') (lit ''eggs'') [] None
     = createNote (constant_executor \<lparr>success = False, error = Some (lit ''execution error: timed out''), output = []\<rparr>) example_uuid example_clock (lit ''iCloud'') (lit ''Groceries'') (lit ''eggs'') [] None
   \<and> createNote (constant_executor \<lparr>success = False, error = Some (lit ''spawn osascript ENOENT''), output = []\<rparr>) example_uuid example_clock (lit ''iCloud'') (lit ''Groceries'') (lit ''eggs'') [] None
     = Inl (Error (lit ''Failed to create note''))
   \<and> searchNotes (constant_executor \<lparr>success = False, error = Some (lit ''spawn osascript ENOENT''), output = []\<rparr>) example_uuid example_clock (lit ''iCloud'') (lit ''milk'')
     = Inl (Error (lit ''Failed to search notes''))
   \<and> searchNotes (constant_executor \<lparr>success = False, error = Some (lit ''execution error: timed out''), output = []\<rparr>) example_uuid example_clock (lit ''iCloud'') (lit ''milk'')
     = Inl (Error (lit ''Failed to search notes''))
   \<and> getNoteContent (constant_executor \<lparr>success = False, error = Some (lit ''spawn osascript ENOENT''), output = []\<rparr>) (lit ''iCloud'') (lit ''Groceries'')
     = Inl (Error (lit ''Failed to get note content''))
   \<and> getNoteContent (constant_executor \<lparr>success = False, error = Some (lit ''execution error: timed out''), output = []\<rparr>) (lit ''iCloud'') (lit ''Groceries'')
     = Inl (Error (lit ''Failed to get note content''))
   \<and> deleteNote (constant_executor \<lparr>success = False, error = Some (lit ''spawn osascript ENOENT''), output = []\<rparr>) (lit ''iCloud'') (lit ''Groceries'')
     = \<lparr>success = False, error = Some (lit ''Failed to delete note'')\<rparr>
   \<and> deleteNote (constant_executor \<lparr>success = False, error = Some (lit ''execution error: timed out''), output = []\<rparr>) (lit ''iCloud'') (lit ''Groceries'')
     = \<lparr>success = False, error = Some (lit ''Failed to delete note'')\<rparr>
   \<and> getAccounts (constant_executor \<lparr>success = False, error = Some (lit ''spawn osascript ENOENT''), output = []\<rparr>) = Inl (Error (lit ''Failed to get accounts''))
   \<and> getAccounts (constant_executor \<lparr>success = False, error = Some (lit ''execution error: timed out''), output = []\<rparr>) = Inl (Error (lit ''Failed to get accounts''))"
  using error_text_never_surfaced
          [where ?run1.0 = "(constant_executor \<lparr>success = False, error = Some (lit ''spawn osascript ENOENT''), output = []\<rparr>)"
             and ?run2.0 = "(constant_executor \<lparr>success = False, error = Some (lit ''execution error: timed out''), output = []\<rparr>)"
             and uuid = example_uuid and clock = example_clock
             and accountName = "lit ''iCloud''" and query = "lit ''milk''"
             and title = "lit ''Groceries''" and noteTitle = "lit ''Groceries''"
             and newContent = "lit ''eggs''" and content = "lit ''eggs''"
             and targetFolderName = "lit ''Home''" and folder = None and tags = "[]"]
  by (simp add: constant_executor_def lit_def createNote_def Let_def)

text \<open>
  Claim C10 says that a name containing a comma always comes back as two or more elements.
  The split is unconditional, but empty pieces are dropped: the single note
  \<^verbatim>\<open>Dear John,\<close> comes back as one element, \<^verbatim>\<open>Dear John\<close>.
\<close>

theorem trailing_comma_counterexample:
  "searchNotes (constant_executor \<lparr>success = True, error = None, output = lit ''Dear John,''\<rparr>) example_uuid example_clock (lit ''iCloud'') (lit ''Dear'')
     = Inr [\<lparr>note_id = example_uuid 0, note_title = lit ''Dear John'', note_content = [], note_tags = [], note_created = example_clock 0, note_modified = example_clock 1\<rparr>]
   \<and> getFolders (constant_executor \<lparr>success = True, error = None, output = lit ''Dear John,''\<rparr>) example_uuid (lit ''iCloud'')
     = Inr [\<lparr>folder_id = example_uuid 0, folder_name = lit ''Dear John'', folder_account = lit ''iCloud''\<rparr>]
   \<and> getAccounts (constant_executor \<lparr>success = True, error = None, output = lit ''Dear John,''\<rparr>) = Inr [lit ''Dear John'']"
  by (simp add: constant_executor_def searchNotes_def getFolders_def getAccounts_def Let_def
        lit_def trim_def is_js_whitespace_def enumerate_eq_zip)

text \<open>
  Claim C10, amended: for a successful outcome whose output contains a comma, the output is
  cut at every comma, into one piece more than there are commas, and no returned title or
  name contains a comma, so a name with a comma never comes back whole. \<^verbatim>\<open>searchNotes\<close>
  returns the non-empty pieces, trimmed; \<^verbatim>\<open>getFolders\<close> and \<^verbatim>\<open>getAccounts\<close> return the
  trimmed pieces that are not empty. The name comes back as two or more elements when at
  least two pieces are kept.
\<close>

theorem comma_splits_unconditionally:
  "(success (run (searchNotes_script (sanitizeForAppleScript accountName) (sanitizeForAppleScript query))) \<and> COMMA \<in> set (output (run (searchNotes_script (sanitizeForAppleScript accountName) (sanitizeForAppleScript query)))) \<longrightarrow>
      (\<exists>found. searchNotes run uuid clock accountName query = Inr found
         \<and> map note_title found
             = map trim (filter (\<lambda>p. p \<noteq> []) (split_on COMMA (output (run (searchNotes_script (sanitizeForAppleScript accountName) (sanitizeForAppleScript query))))))
         \<and> (\<forall>n \<in> set found. COMMA \<notin> set (note_title n))))
   \<and> (success (run (getFolders_script (sanitizeForAppleScript accountName))) \<and> COMMA \<in> set (output (run (getFolders_script (sanitizeForAppleScript accountName)))) \<longrightarrow>
      (\<exists>listed. getFolders run uuid accountName = Inr listed
         \<and> map folder_name listed
             = filter (\<lambda>n. n \<noteq> []) (map trim (split_on COMMA (output (run (getFolders_script (sanitizeForAppleScript accountName))))))
         \<and> (\<forall>f \<in> set listed. COMMA \<notin> set (folder_name f))))
   \<and> (success (run getAccounts_script) \<longrightarrow>
      getAccounts run = Inr (filter (\<lambda>a. a \<noteq> []) (map trim (split_on COMMA (output (run getAccounts_script)))))
      \<and> (\<forall>a \<in> set (filter (\<lambda>a. a \<noteq> []) (map trim (split_on COMMA (output (run getAccounts_script))))).
            COMMA \<notin> set a))
   \<and> length (split_on COMMA s) = Suc (count_list s COMMA)"
proof -
  have search: "\<exists>found. searchNotes run uuid clock accountName query = Inr found
         \<and> map note_title found
             = map trim (filter (\<lambda>p. p \<noteq> []) (split_on COMMA (output (run (searchNotes_script (sanitizeForAppleScript accountName) (sanitizeForAppleScript query))))))
         \<and> (\<forall>n \<in> set found. COMMA \<notin> set (note_title n))"
    if ok: "success (run (searchNotes_script (sanitizeForAppleScript accountName) (sanitizeForAppleScript query)))" and comma: "COMMA \<in> set (output (run (searchNotes_script (sanitizeForAppleScript accountName) (sanitizeForAppleScript query))))"
  proof -
    let ?out = "output (run (searchNotes_script (sanitizeForAppleScript accountName) (sanitizeForAppleScript query)))"
    let ?found = "map (\<lambda>(i, title). \<lparr>note_id = uuid i, note_title = trim title, note_content = [],
                          note_tags = [], note_created = clock (2 * i),
                          note_modified = clock (2 * i + 1)\<rparr>)
                    (enumerate 0 (filter (\<lambda>p. p \<noteq> []) (split_on COMMA ?out)))"
    have nonblank: "?out \<noteq> []" "trim ?out \<noteq> []"
      using comma trim_not_Nil [OF comma comma_not_whitespace] by auto
    have res: "searchNotes run uuid clock accountName query = Inr ?found"
      using ok nonblank by (simp add: searchNotes_def Let_def)
    have titles: "map note_title ?found = map trim (filter (\<lambda>p. p \<noteq> []) (split_on COMMA ?out))"
      by (rule titles_of_decoded_notes)
    have "\<forall>t \<in> set (map note_title ?found). COMMA \<notin> set t"
      unfolding titles using trimmed_piece_free [of _ COMMA ?out] by auto
    then have free: "\<forall>n \<in> set ?found. COMMA \<notin> set (note_title n)"
      by simp
    show ?thesis using res titles free by blast
  qed
  have folders: "\<exists>listed. getFolders run uuid accountName = Inr listed
         \<and> map folder_name listed
             = filter (\<lambda>n. n \<noteq> []) (map trim (split_on COMMA (output (run (getFolders_script (sanitizeForAppleScript accountName))))))
         \<and> (\<forall>f \<in> set listed. COMMA \<notin> set (folder_name f))"
    if ok: "success (run (getFolders_script (sanitizeForAppleScript accountName)))" and comma: "COMMA \<in> set (output (run (getFolders_script (sanitizeForAppleScript accountName))))"
  proof -
    let ?out = "output (run (getFolders_script (sanitizeForAppleScript accountName)))"
    let ?listed = "filter (\<lambda>folder. folder_name folder \<noteq> [])
                    (map (\<lambda>(i, name). \<lparr>folder_id = uuid i, folder_name = trim name,
                                         folder_account = accountName\<rparr>)
                      (enumerate 0 (split_on COMMA ?out)))"
    have nonblank: "?out \<noteq> []" "trim ?out \<noteq> []"
      using comma trim_not_Nil [OF comma comma_not_whitespace] by auto
    have res: "getFolders run uuid accountName = Inr ?listed"
      using ok nonblank by (simp add: getFolders_def Let_def)
    have names: "map folder_name ?listed = filter (\<lambda>n. n \<noteq> []) (map trim (split_on COMMA ?out))"
      by (rule names_of_decoded_folders)
    have "\<forall>t \<in> set (map folder_name ?listed). COMMA \<notin> set t"
      unfolding names using trimmed_piece_free [of _ COMMA ?out] by auto
    then have free: "\<forall>f \<in> set ?listed. COMMA \<notin> set (folder_name f)"
      by simp
    show ?thesis using res names free by blast
  qed
  have accounts: "getAccounts run = Inr (filter (\<lambda>a. a \<noteq> []) (map trim (split_on COMMA (output (run getAccounts_script)))))
      \<and> (\<forall>a \<in> set (filter (\<lambda>a. a \<noteq> []) (map trim (split_on COMMA (output (run getAccounts_script))))).
            COMMA \<notin> set a)"
    if ok: "success (run getAccounts_script)"
    using ok trimmed_piece_free [of _ COMMA "output (run getAccounts_script)"]
    by (auto simp add: getAccounts_def Let_def)
  show ?thesis
    using search folders accounts length_split_on [of COMMA s] by blast
qed

theorem comma_splits_unconditionally_witness:
  "searchNotes (constant_executor \<lparr>success = True, error = None, output = lit ''Smith, John''\<rparr>) example_uuid example_clock (lit ''iCloud'') (lit ''Smith'')
     = Inr [\<lparr>note_id = example_uuid 0, note_title = lit ''Smith'', note_content = [], note_tags = [], note_created = example_clock 0, note_modified = example_clock 1\<rparr>,
            \<lparr>note_id = example_uuid 1, note_title = lit ''John'', note_content = [], note_tags = [], note_created = example_clock 2, note_modified = example_clock 3\<rparr>]
   \<and> getFolders (constant_executor \<lparr>success = True, error = None, output = lit ''Smith, John''\<rparr>) example_uuid (lit ''iCloud'')
     = Inr [\<lparr>folder_id = example_uuid 0, folder_name = lit ''Smith'', folder_account = lit ''iCloud''\<rparr>,
            \<lparr>folder_id = example_uuid 1, folder_name = lit ''John'', folder_account = lit ''iCloud''\<rparr>]
   \<and> getAccounts (constant_executor \<lparr>success = True, error = None, output = lit ''Smith, John''\<rparr>) = Inr [lit ''Smith'', lit ''John'']
   \<and> length (split_on COMMA (lit ''Smith, John'')) = 2"
  using comma_splits_unconditionally
          [where run = "(constant_executor \<lparr>success = True, error = None, output = lit ''Smith, John''\<rparr>)" and uuid = example_uuid and clock = example_clock
             and accountName = "lit ''iCloud''" and query = "lit ''Smith''"
             and s = "lit ''Smith, John''"]
  by (simp add: constant_executor_def searchNotes_def getFolders_def getAccounts_def Let_def
        lit_def trim_def is_js_whitespace_def enumerate_eq_zip)

end
